theory Spec2Isabelle
  imports Main
begin

section \<open>JavaScript values used by the auth provider\<close>

text \<open>
  The provider of \<^verbatim>\<open>src/AuthProvider.jsx\<close> handles values that come out of JSON
  response bodies, out of \<^verbatim>\<open>localStorage\<close> and out of its callers. They are modelled by
  one datatype. An object is an association list read with \<open>map_of\<close>.
\<close>

text \<open>
  A number is a double: \<open>m\<close> times two to the power \<open>e\<close> (so \<^verbatim>\<open>1.5\<close> is \<open>Finite 3 (- 1)\<close>),
  an infinity with its sign, or \<^verbatim>\<open>NaN\<close>. The provider never computes with a number
  and never compares two of them: it only tests values for truthiness.
\<close>

datatype js_number =
    Finite int int
  | Infinity bool
  | NaN

fun nonzero :: "js_number \<Rightarrow> bool" where
  "nonzero (Finite m e) = (m \<noteq> 0)"
| "nonzero (Infinity negative) = True"
| "nonzero NaN = False"

datatype jsval =
    JUndefined
  | JNull
  | JBool bool
  | JNum js_number
  | JStr string
  | JArr "jsval list"
  | JObj "(string \<times> jsval) list"

text \<open>What can be thrown inside the provider: the rejection of an axios call
  (an error object whose \<^verbatim>\<open>response\<close> may be missing; when it is there, its
  \<^verbatim>\<open>data\<close> is kept) or the \<^verbatim>\<open>TypeError\<close> of a property read on
  \<^verbatim>\<open>null\<close> or \<^verbatim>\<open>undefined\<close>. Both are error objects with a \<^verbatim>\<open>message\<close>; the
  wording of a \<^verbatim>\<open>TypeError\<close> is the engine's, and nothing below depends on it.\<close>

datatype js_error =
    AxiosError "jsval option" string
  | TypeError string

fun truthy :: "jsval \<Rightarrow> bool" where
  "truthy JUndefined = False"
| "truthy JNull = False"
| "truthy (JBool b) = b"
| "truthy (JNum n) = nonzero n"
| "truthy (JStr s) = (s \<noteq> [])"
| "truthy (JArr xs) = True"
| "truthy (JObj kvs) = True"

text \<open>\<^verbatim>\<open>a || b\<close> on two values already computed.\<close>

definition js_or :: "jsval \<Rightarrow> jsval \<Rightarrow> jsval" where
  "js_or a b = (if truthy a then a else b)"

text \<open>
  \<^verbatim>\<open>v.k\<close>: a \<^verbatim>\<open>TypeError\<close> on \<^verbatim>\<open>null\<close> and \<^verbatim>\<open>undefined\<close>, the own property of an
  object, \<^verbatim>\<open>undefined\<close> otherwise. The provider reads only the names \<^verbatim>\<open>user\<close>,
  \<^verbatim>\<open>access_token\<close>, \<^verbatim>\<open>role\<close>, \<^verbatim>\<open>error\<close> and \<^verbatim>\<open>message\<close>, none of which a
  primitive, an array or \<^verbatim>\<open>Object.prototype\<close> provides.
\<close>

fun get_prop :: "jsval \<Rightarrow> string \<Rightarrow> js_error + jsval" where
  "get_prop JUndefined k = Inl (TypeError (''Cannot read properties of undefined (reading '' @ k @ '')''))"
| "get_prop JNull k = Inl (TypeError (''Cannot read properties of null (reading '' @ k @ '')''))"
| "get_prop (JObj kvs) k = Inr (case map_of kvs k of None \<Rightarrow> JUndefined | Some v \<Rightarrow> v)"
| "get_prop v k = Inr JUndefined"

text \<open>\<^verbatim>\<open>v?.k\<close>: \<^verbatim>\<open>undefined\<close> where \<^verbatim>\<open>v.k\<close> would throw.\<close>

definition opt_get :: "jsval \<Rightarrow> string \<Rightarrow> jsval" where
  "opt_get v k = (case get_prop v k of Inl e \<Rightarrow> JUndefined | Inr x \<Rightarrow> x)"

text \<open>\<^verbatim>\<open>error.response?.data\<close> and \<^verbatim>\<open>error.message\<close> of a thrown error.\<close>

fun error_response_data :: "js_error \<Rightarrow> jsval" where
  "error_response_data (AxiosError (Some d) m) = d"
| "error_response_data (AxiosError None m) = JUndefined"
| "error_response_data (TypeError m) = JUndefined"

fun error_message :: "js_error \<Rightarrow> jsval" where
  "error_message (AxiosError r m) = JStr m"
| "error_message (TypeError m) = JStr m"

subsection \<open>Conversion to a string, as \<^verbatim>\<open>localStorage.setItem\<close> does it\<close>

text \<open>
  \<^verbatim>\<open>localStorage.setItem\<close> stores the conversion of its argument to a string. A string
  converts to itself. What the engine makes of any other value (how it prints a number,
  that it throws a \<^verbatim>\<open>TypeError\<close> for an object whose \<^verbatim>\<open>toString\<close> is not a function)
  is not fixed here: it is a parameter, \<open>None\<close> where the conversion throws.
\<close>

type_synonym conversion = "jsval \<Rightarrow> string option"

definition to_string :: "conversion \<Rightarrow> jsval \<Rightarrow> string option" where
  "to_string conv v = (case v of JStr s \<Rightarrow> Some s | _ \<Rightarrow> conv v)"

text \<open>The examples below store strings only and never ask for another conversion; they
  take the one that always throws.\<close>

definition no_conversion :: conversion where
  "no_conversion v = None"

section \<open>The world the provider acts on\<close>

text \<open>
  A request as the backend sees it. The \<open>authorization\<close> header is what the request
  interceptor of the provider attaches.
\<close>

record request =
  http_method :: string
  url :: string
  body :: jsval
  authorization :: "string option"

text \<open>The outcome of one axios call: the promise resolves with \<^verbatim>\<open>response.data\<close>, or it
  rejects with an error whose \<^verbatim>\<open>response.data\<close> (if there is a response) and
  \<^verbatim>\<open>message\<close> are given.\<close>

datatype http_outcome =
    Resolved jsval
  | Rejected "jsval option" string

datatype console_arg = ErrorArg js_error | ValueArg jsval

text \<open>Every effect of the provider, in the order in which the code performs them.\<close>

datatype effect =
    SetUser jsval
  | SetToken jsval
  | SetLoading bool
  | StorageSet string
  | StorageRemove
  | Navigate string
  | Request request
  | ConsoleError string console_arg
  | ConsoleLog string console_arg

text \<open>
  The three pieces of React state, the \<^verbatim>\<open>'token'\<close> slot of \<^verbatim>\<open>localStorage\<close>
  (\<open>None\<close>: no such key) and the log of effects.
\<close>

record world =
  user :: jsval
  token :: jsval
  loading :: bool
  storage :: "string option"
  trace :: "effect list"

text \<open>
  A piece of code: it runs in a world and ends by returning a value or by throwing, in the
  world it has changed so far. An \<^verbatim>\<open>async\<close> function that throws is a promise that
  rejects. What the model takes from the environment: a state setter of React,
  \<^verbatim>\<open>navigate\<close>, \<^verbatim>\<open>console\<close>, \<^verbatim>\<open>localStorage.getItem\<close> and
  \<^verbatim>\<open>localStorage.removeItem\<close> do not throw, and \<^verbatim>\<open>localStorage.setItem\<close> throws only
  when the conversion of its argument does; the state a component sees after an
  operation is the last value set; axios rejects with an error object; and nothing else
  touches the state between the start and the end of one operation.
\<close>

type_synonym action = "world \<Rightarrow> (js_error + jsval) \<times> world"

definition js_return :: "jsval \<Rightarrow> action" where
  "js_return v w = (Inr v, w)"

definition js_lift :: "js_error + jsval \<Rightarrow> action" where
  "js_lift r w = (r, w)"

definition js_bind :: "action \<Rightarrow> (jsval \<Rightarrow> action) \<Rightarrow> action" where
  "js_bind m f w = (case m w of (Inl e, w') \<Rightarrow> (Inl e, w') | (Inr v, w') \<Rightarrow> f v w')"

definition js_seq :: "action \<Rightarrow> action \<Rightarrow> action" where
  "js_seq m n = js_bind m (\<lambda>_. n)"

text \<open>
  \<^verbatim>\<open>try { block } catch (error) { handler } finally { final }\<close>: the handler runs
  when the block throws, the final block runs in every case (also after a \<^verbatim>\<open>return\<close>
  of the block), and what the final block throws replaces the result.
\<close>

definition try_catch_finally :: "action \<Rightarrow> (js_error \<Rightarrow> action) \<Rightarrow> action \<Rightarrow> action" where
  "try_catch_finally block handler final w =
     (case block w of (r, w1) \<Rightarrow>
        (case (case r of Inl e \<Rightarrow> handler e w1 | Inr v \<Rightarrow> (Inr v, w1)) of (r', w2) \<Rightarrow>
           (case final w2 of
              (Inl e, w3) \<Rightarrow> (Inl e, w3)
            | (Inr _, w3) \<Rightarrow> (r', w3))))"

subsection \<open>Primitive effects\<close>

definition setUser :: "jsval \<Rightarrow> action" where
  "setUser v w = (Inr JUndefined, w\<lparr>user := v, trace := trace w @ [SetUser v]\<rparr>)"

definition setToken :: "jsval \<Rightarrow> action" where
  "setToken v w = (Inr JUndefined, w\<lparr>token := v, trace := trace w @ [SetToken v]\<rparr>)"

definition setLoading :: "bool \<Rightarrow> action" where
  "setLoading b w = (Inr JUndefined, w\<lparr>loading := b, trace := trace w @ [SetLoading b]\<rparr>)"

definition navigate :: "string \<Rightarrow> action" where
  "navigate p w = (Inr JUndefined, w\<lparr>trace := trace w @ [Navigate p]\<rparr>)"

definition console_error :: "string \<Rightarrow> console_arg \<Rightarrow> action" where
  "console_error l a w = (Inr JUndefined, w\<lparr>trace := trace w @ [ConsoleError l a]\<rparr>)"

definition console_log :: "string \<Rightarrow> console_arg \<Rightarrow> action" where
  "console_log l a w = (Inr JUndefined, w\<lparr>trace := trace w @ [ConsoleLog l a]\<rparr>)"

text \<open>\<^verbatim>\<open>localStorage.getItem('token')\<close>: the stored string, or \<^verbatim>\<open>null\<close>.\<close>

definition localStorage_getItem :: "action" where
  "localStorage_getItem w =
     (Inr (case storage w of None \<Rightarrow> JNull | Some s \<Rightarrow> JStr s), w)"

text \<open>\<^verbatim>\<open>localStorage.setItem('token', v)\<close> stores the string conversion of \<open>v\<close>, or
  throws what the conversion throws and stores nothing.\<close>

definition localStorage_setItem :: "conversion \<Rightarrow> jsval \<Rightarrow> action" where
  "localStorage_setItem conv v w =
     (case to_string conv v of
        None \<Rightarrow> (Inl (TypeError ''Cannot convert object to primitive value''), w)
      | Some s \<Rightarrow>
          (Inr JUndefined, w\<lparr>storage := Some s, trace := trace w @ [StorageSet s]\<rparr>))"

definition localStorage_removeItem :: "action" where
  "localStorage_removeItem w =
     (Inr JUndefined, w\<lparr>storage := None, trace := trace w @ [StorageRemove]\<rparr>)"

text \<open>
  The request interceptor: \<^verbatim>\<open>const storedToken = localStorage.getItem('token');
  if (storedToken) config.headers.Authorization = `Bearer ${storedToken}`;
  return config\<close>.
\<close>

definition interceptor :: "request \<Rightarrow> world \<Rightarrow> request" where
  "interceptor config w =
     (case storage w of
        None \<Rightarrow> config
      | Some storedToken \<Rightarrow>
          if truthy (JStr storedToken)
          then config\<lparr>authorization := Some (''Bearer '' @ storedToken)\<rparr>
          else config)"

text \<open>
  One axios call. The interceptor completes the request, the request is sent, and the call
  returns \<^verbatim>\<open>response.data\<close> or throws the rejection. Each operation of the provider
  makes at most one call, so what the backend and the network do with it is a parameter
  of the operation: the \<open>outcome\<close>.
\<close>

definition axios_request :: "http_outcome \<Rightarrow> string \<Rightarrow> string \<Rightarrow> jsval \<Rightarrow> action" where
  "axios_request outcome m u b w =
     (let req = interceptor \<lparr>http_method = m, url = u, body = b, authorization = None\<rparr> w;
          w' = w\<lparr>trace := trace w @ [Request req]\<rparr>
      in case outcome of
           Resolved d \<Rightarrow> (Inr d, w')
         | Rejected r msg \<Rightarrow> (Inl (AxiosError r msg), w'))"

definition axios_get :: "http_outcome \<Rightarrow> string \<Rightarrow> action" where
  "axios_get outcome u = axios_request outcome ''GET'' u JUndefined"

definition axios_post :: "http_outcome \<Rightarrow> string \<Rightarrow> jsval \<Rightarrow> action" where
  "axios_post outcome u b = axios_request outcome ''POST'' u b"

text \<open>\<^verbatim>\<open>const API = `${BACKEND_URL}/api`\<close>, the base URL being configuration.\<close>

definition API :: "string \<Rightarrow> string" where
  "API BACKEND_URL = BACKEND_URL @ ''/api''"

text \<open>The state of the provider when it mounts:
  \<^verbatim>\<open>useState(null)\<close>, \<^verbatim>\<open>useState(localStorage.getItem('token'))\<close>, \<^verbatim>\<open>useState(true)\<close>.\<close>

definition initial_world :: "string option \<Rightarrow> world" where
  "initial_world stored =
     \<lparr>user = JNull,
      token = (case stored of None \<Rightarrow> JNull | Some s \<Rightarrow> JStr s),
      loading = True,
      storage = stored,
      trace = []\<rparr>"

section \<open>The four operations of the provider\<close>

subsection \<open>\<^verbatim>\<open>initializeAuth\<close>\<close>

definition initializeAuth_try :: "conversion \<Rightarrow> string \<Rightarrow> http_outcome \<Rightarrow> action" where
  "initializeAuth_try conv BACKEND_URL outcome =
     js_bind localStorage_getItem (\<lambda>storedToken.
       if \<not> truthy storedToken
       then js_seq (setUser JNull)
           (js_seq (setLoading False)
           (js_return JUndefined))
       else
         js_bind (axios_get outcome (API BACKEND_URL @ ''/auth/me/'')) (\<lambda>response_data.
         js_bind (js_lift (get_prop response_data ''user'')) (\<lambda>response_data_user.
         let userData = js_or response_data_user response_data in
         js_seq (setUser userData)
        (js_bind (js_lift (get_prop userData ''access_token'')) (\<lambda>userData_access_token.
         let realToken = js_or userData_access_token storedToken in
         js_seq (if truthy realToken
                 then js_seq (localStorage_setItem conv realToken) (setToken realToken)
                 else js_return JUndefined)
        (js_return JUndefined))))))"

definition initializeAuth_catch :: "js_error \<Rightarrow> action" where
  "initializeAuth_catch err =
     js_seq (console_error ''Error fetching user during init:'' (ErrorArg err))
    (js_seq (setUser JNull)
    (js_seq (setToken JNull)
     localStorage_removeItem))"

definition initializeAuth :: "conversion \<Rightarrow> string \<Rightarrow> http_outcome \<Rightarrow> action" where
  "initializeAuth conv BACKEND_URL outcome =
     js_seq (setLoading True)
    (try_catch_finally
       (initializeAuth_try conv BACKEND_URL outcome)
       initializeAuth_catch
       (setLoading False))"

subsection \<open>\<^verbatim>\<open>login\<close>\<close>

definition login_try :: "conversion \<Rightarrow> string \<Rightarrow> http_outcome \<Rightarrow> jsval \<Rightarrow> jsval \<Rightarrow> action" where
  "login_try conv BACKEND_URL outcome email password =
     js_bind (axios_post outcome (API BACKEND_URL @ ''/auth/login/'')
                (JObj [(''email'', email), (''password'', password)])) (\<lambda>response_data.
     js_bind (js_lift (get_prop response_data ''user'')) (\<lambda>userData.
     js_bind (js_lift (get_prop response_data ''access_token'')) (\<lambda>access_token.
     js_seq (if truthy access_token
             then js_seq (localStorage_setItem conv access_token) (setToken access_token)
             else js_return JUndefined)
    (js_seq (setUser userData)
    (js_bind (js_lift (get_prop userData ''role'')) (\<lambda>role.
     js_seq (if role = JStr ''admin''
             then navigate ''/dashboard/admin''
             else navigate ''/dashboard/customer'')
    (js_return (JObj [(''success'', JBool True)]))))))))"

definition login_catch :: "js_error \<Rightarrow> action" where
  "login_catch err =
     js_seq (console_error ''Login error:''
               (ValueArg (js_or (error_response_data err) (error_message err))))
    (js_seq (setUser JNull)
    (js_seq (setToken JNull)
    (js_seq localStorage_removeItem
    (js_return (JObj [(''success'', JBool False),
                      (''error'',
                         js_or (js_or (opt_get (error_response_data err) ''error'')
                                      (opt_get (error_response_data err) ''message''))
                               (JStr ''Login failed''))])))))"

definition login :: "conversion \<Rightarrow> string \<Rightarrow> http_outcome \<Rightarrow> jsval \<Rightarrow> jsval \<Rightarrow> action" where
  "login conv BACKEND_URL outcome email password =
     js_seq (setLoading True)
    (try_catch_finally
       (login_try conv BACKEND_URL outcome email password)
       login_catch
       (setLoading False))"

subsection \<open>\<^verbatim>\<open>register\<close>\<close>

text \<open>The parameter \<^verbatim>\<open>role = 'customer'\<close>: the default stands in for \<^verbatim>\<open>undefined\<close>.\<close>

definition default_role :: "jsval \<Rightarrow> jsval" where
  "default_role r = (if r = JUndefined then JStr ''customer'' else r)"

definition register_try :: "conversion \<Rightarrow> string \<Rightarrow> http_outcome \<Rightarrow> jsval \<Rightarrow> jsval \<Rightarrow> jsval \<Rightarrow> jsval \<Rightarrow> action" where
  "register_try conv BACKEND_URL outcome email password name r =
     js_bind (axios_post outcome (API BACKEND_URL @ ''/auth/register/'')
                (JObj [(''email'', email), (''password'', password),
                       (''name'', name), (''role'', default_role r)])) (\<lambda>response_data.
     js_bind (js_lift (get_prop response_data ''user'')) (\<lambda>userData.
     js_bind (js_lift (get_prop response_data ''access_token'')) (\<lambda>access_token.
     js_seq (if truthy access_token
             then js_seq (localStorage_setItem conv access_token) (setToken access_token)
             else js_return JUndefined)
    (js_seq (setUser userData)
    (js_bind (js_lift (get_prop userData ''role'')) (\<lambda>role.
     js_seq (if role = JStr ''admin''
             then navigate ''/dashboard/admin''
             else navigate ''/dashboard/customer'')
    (js_return (JObj [(''success'', JBool True)]))))))))"

definition register_catch :: "js_error \<Rightarrow> action" where
  "register_catch err =
     js_seq (console_error ''Registration error:''
               (ValueArg (js_or (error_response_data err) (error_message err))))
    (js_seq (setUser JNull)
    (js_seq (setToken JNull)
    (js_seq localStorage_removeItem
    (js_return (JObj [(''success'', JBool False),
                      (''error'',
                         js_or (js_or (opt_get (error_response_data err) ''error'')
                                      (opt_get (error_response_data err) ''message''))
                               (JStr ''Registration failed''))])))))"

definition register :: "conversion \<Rightarrow> string \<Rightarrow> http_outcome \<Rightarrow> jsval \<Rightarrow> jsval \<Rightarrow> jsval \<Rightarrow> jsval \<Rightarrow> action" where
  "register conv BACKEND_URL outcome email password name r =
     js_seq (setLoading True)
    (try_catch_finally
       (register_try conv BACKEND_URL outcome email password name r)
       register_catch
       (setLoading False))"

subsection \<open>\<^verbatim>\<open>logout\<close>\<close>

definition logout_try :: "string \<Rightarrow> http_outcome \<Rightarrow> action" where
  "logout_try BACKEND_URL outcome =
     js_seq (axios_post outcome (API BACKEND_URL @ ''/auth/logout/'') JUndefined)
            (js_return JUndefined)"

definition logout_catch :: "js_error \<Rightarrow> action" where
  "logout_catch err = console_log ''Logout error (ignored):'' (ErrorArg err)"

definition logout_finally :: "action" where
  "logout_finally =
     js_seq (setUser JNull)
    (js_seq (setToken JNull)
    (js_seq localStorage_removeItem
    (navigate ''/'')))"

definition logout :: "string \<Rightarrow> http_outcome \<Rightarrow> action" where
  "logout BACKEND_URL outcome =
     try_catch_finally (logout_try BACKEND_URL outcome) logout_catch logout_finally"

section \<open>Reading a trace\<close>

text \<open>The routes navigated to and the requests sent, in order.\<close>

fun navigations :: "effect list \<Rightarrow> string list" where
  "navigations [] = []"
| "navigations (Navigate p # es) = p # navigations es"
| "navigations (e # es) = navigations es"

fun requests :: "effect list \<Rightarrow> request list" where
  "requests [] = []"
| "requests (Request r # es) = r # requests es"
| "requests (e # es) = requests es"

text \<open>The effects an action adds to the trace of the world it starts in.\<close>

definition effects_of :: "action \<Rightarrow> world \<Rightarrow> effect list" where
  "effects_of a w = drop (length (trace w)) (trace (snd (a w)))"

text \<open>The session is cleared: no user, no token, nothing persisted.\<close>

definition cleared :: "world \<Rightarrow> bool" where
  "cleared w = (user w = JNull \<and> token w = JNull \<and> storage w = None)"

text \<open>
  Token and user are cleared together. Reading a trace from the left, a token is either
  cleared inside the block \<^verbatim>\<open>setUser(null); setToken(null); localStorage.removeItem('token')\<close>
  or set to a truthy value, and the stored token is removed nowhere else.
\<close>

fun clears_together :: "effect list \<Rightarrow> bool" where
  "clears_together [] = True"
| "clears_together (e # es) =
     (if e = SetUser JNull \<and> take 2 es = [SetToken JNull, StorageRemove]
      then clears_together (drop 2 es)
      else (case e of SetToken t \<Rightarrow> truthy t | StorageRemove \<Rightarrow> False | _ \<Rightarrow> True)
           \<and> clears_together es)"

text \<open>
  A \<^verbatim>\<open>catch\<close> block of \<^verbatim>\<open>initializeAuth\<close>, \<^verbatim>\<open>login\<close> or \<^verbatim>\<open>register\<close> ran: each of
  them starts with \<^verbatim>\<open>console.error\<close>, which is called nowhere else.
\<close>

fun handler_ran :: "effect list \<Rightarrow> bool" where
  "handler_ran [] = False"
| "handler_ran (ConsoleError l a # es) = True"
| "handler_ran (e # es) = handler_ran es"

text \<open>
  A token can be stored: it is falsy, so that the provider stores nothing, or its
  conversion to a string does not throw. Every string can be stored.
\<close>

definition storable :: "conversion \<Rightarrow> jsval \<Rightarrow> bool" where
  "storable conv v = (\<not> truthy v \<or> to_string conv v \<noteq> None)"

text \<open>
  The failure paths of \<^verbatim>\<open>login\<close> and \<^verbatim>\<open>register\<close>, by what the request does: it
  rejects; or it resolves without a body to destructure, without a user to read the role
  of, or with a token whose conversion throws.
\<close>

fun response_fails :: "conversion \<Rightarrow> http_outcome \<Rightarrow> bool" where
  "response_fails conv (Rejected rsp msg) = True"
| "response_fails conv (Resolved d) =
     (d = JNull \<or> d = JUndefined
      \<or> opt_get d ''user'' = JNull \<or> opt_get d ''user'' = JUndefined
      \<or> \<not> storable conv (opt_get d ''access_token''))"

text \<open>
  The failure paths of \<^verbatim>\<open>initializeAuth\<close> once a non-empty token \<open>s\<close> is found stored:
  the request rejects; or it resolves without a body, or with a token on the fetched user
  whose conversion throws.
\<close>

fun fetch_fails :: "conversion \<Rightarrow> string \<Rightarrow> http_outcome \<Rightarrow> bool" where
  "fetch_fails conv s (Rejected rsp msg) = True"
| "fetch_fails conv s (Resolved d) =
     (d = JNull \<or> d = JUndefined
      \<or> \<not> storable conv
             (js_or (opt_get (js_or (opt_get d ''user'') d) ''access_token'') (JStr s)))"

section \<open>Basic facts\<close>

lemmas action_defs =
  js_return_def js_lift_def js_bind_def js_seq_def try_catch_finally_def
  setUser_def setToken_def setLoading_def navigate_def console_error_def console_log_def
  localStorage_getItem_def localStorage_setItem_def localStorage_removeItem_def
  axios_request_def axios_get_def axios_post_def

lemmas initializeAuth_defs = initializeAuth_def initializeAuth_try_def initializeAuth_catch_def

lemmas login_defs = login_def login_try_def login_catch_def

lemmas register_defs = register_def register_try_def register_catch_def

lemmas logout_defs = logout_def logout_try_def logout_catch_def logout_finally_def

lemma opt_get_simps:
  "opt_get JUndefined k = JUndefined"
  "opt_get JNull k = JUndefined"
  "opt_get (JBool b) k = JUndefined"
  "opt_get (JNum n) k = JUndefined"
  "opt_get (JStr s) k = JUndefined"
  "opt_get (JArr xs) k = JUndefined"
  "opt_get (JObj kvs) k = (case map_of kvs k of None \<Rightarrow> JUndefined | Some v \<Rightarrow> v)"
  by (simp_all add: opt_get_def)

text \<open>A property read either throws a \<^verbatim>\<open>TypeError\<close> or yields what \<^verbatim>\<open>?.\<close> yields.\<close>

lemma get_prop_cases:
  obtains (throws) m where "get_prop v k = Inl (TypeError m)" "v = JNull \<or> v = JUndefined"
        | (reads) "get_prop v k = Inr (opt_get v k)" "v \<noteq> JNull" "v \<noteq> JUndefined"
  by (cases v) (auto simp: opt_get_def)

lemma get_prop_other_key: "get_prop v k = Inr x \<Longrightarrow> get_prop v k' = Inr (opt_get v k')"
  by (cases v) (auto simp: opt_get_def)

lemma get_prop_defined:
  "v \<noteq> JNull \<Longrightarrow> v \<noteq> JUndefined \<Longrightarrow> get_prop v k = Inr (opt_get v k)"
  by (cases v) (auto simp: opt_get_def)

lemma get_prop_Inr: "get_prop v k = Inr x \<Longrightarrow> v \<noteq> JNull \<and> v \<noteq> JUndefined \<and> x = opt_get v k"
  by (cases v) (auto simp: opt_get_def)

lemma truthy_defined: "truthy v \<Longrightarrow> v \<noteq> JNull \<and> v \<noteq> JUndefined"
  by (cases v) auto

lemma to_string_JStr: "to_string conv (JStr s) = Some s"
  by (simp add: to_string_def)

lemma storable_JStr: "storable conv (JStr s)"
  by (simp add: storable_def to_string_def)

lemma storable_falsy: "\<not> truthy v \<Longrightarrow> storable conv v"
  by (simp add: storable_def)

text \<open>A token is falsy, or its conversion throws, or it is stored as some string.\<close>

lemma token_cases:
  obtains (falsy) "\<not> truthy v" "storable conv v"
        | (throws) "truthy v" "to_string conv v = None" "\<not> storable conv v"
        | (stores) s where "truthy v" "to_string conv v = Some s" "storable conv v"
  by (cases "to_string conv v") (auto simp: storable_def)

text \<open>\<open>clears_together\<close> does reject a token cleared while the user stays.\<close>

lemma clears_together_rejects:
  "\<not> clears_together [SetLoading True, SetToken JNull, StorageRemove, SetLoading False]"
  "\<not> clears_together [SetUser (JObj []), SetToken JNull, StorageRemove]"
  "\<not> clears_together [SetUser JNull, StorageRemove]"
  by simp_all

section \<open>What each operation does on every path\<close>

text \<open>
  \<^verbatim>\<open>login\<close> ends in one of two ways. On a failure path its \<^verbatim>\<open>try\<close> block throws,
  the \<^verbatim>\<open>catch\<close> block logs, clears the session and returns the failure object; otherwise
  the block returns \<^verbatim>\<open>{success: true}\<close> with the user set and one navigation made.
\<close>

lemma login_paths:
  fixes conv B outcome email password w
  defines "run \<equiv> login conv B outcome email password"
  shows "\<exists>res w'. run w = (Inr res, w')
      \<and> loading w' = False
      \<and> clears_together (effects_of run w)
      \<and> ((\<exists>e. fst (login_try conv B outcome email password (snd (setLoading True w))) = Inl e)
            \<longleftrightarrow> response_fails conv outcome)
      \<and> (handler_ran (effects_of run w) \<longleftrightarrow> response_fails conv outcome)
      \<and> (response_fails conv outcome \<longrightarrow>
            cleared w'
            \<and> res = JObj [(''success'', JBool False),
                          (''error'',
                             case outcome of
                               Rejected rsp msg \<Rightarrow>
                                 js_or (js_or (opt_get (error_response_data (AxiosError rsp msg)) ''error'')
                                              (opt_get (error_response_data (AxiosError rsp msg)) ''message''))
                                       (JStr ''Login failed'')
                             | Resolved d \<Rightarrow> JStr ''Login failed'')])
      \<and> (\<not> response_fails conv outcome \<longrightarrow>
            res = JObj [(''success'', JBool True)]
            \<and> (\<exists>d. outcome = Resolved d \<and> user w' = opt_get d ''user''))"
proof (cases outcome)
  case (Rejected rsp msg)
  then show ?thesis
    unfolding run_def
    by (simp add: login_defs action_defs Let_def effects_of_def cleared_def)
next
  case (Resolved d)
  show ?thesis
  proof (cases rule: get_prop_cases[where v = d and k = "''user''"])
    case (throws m)
    with Resolved show ?thesis
      unfolding run_def
      by (auto simp: login_defs action_defs Let_def effects_of_def cleared_def opt_get_simps js_or_def)
  next
    case reads
    note d = this get_prop_defined[OF this(2,3), of "''access_token''"]
    show ?thesis
    proof (cases rule: token_cases[where v = "opt_get d ''access_token''" and conv = conv])
      case throws
      with Resolved d show ?thesis
        unfolding run_def
        by (simp add: login_defs action_defs Let_def effects_of_def cleared_def opt_get_simps js_or_def)
    next
      case falsy
      show ?thesis
      proof (cases rule: get_prop_cases[where v = "opt_get d ''user''" and k = "''role''"])
        case (throws m)
        with Resolved d falsy show ?thesis
          unfolding run_def
          by (auto simp: login_defs action_defs Let_def effects_of_def cleared_def opt_get_simps js_or_def)
      next
        case reads
        with Resolved d falsy show ?thesis
          unfolding run_def
          by (simp add: login_defs action_defs Let_def effects_of_def)
      qed
    next
      case (stores s)
      show ?thesis
      proof (cases rule: get_prop_cases[where v = "opt_get d ''user''" and k = "''role''"])
        case (throws m)
        with Resolved d stores show ?thesis
          unfolding run_def
          by (auto simp: login_defs action_defs Let_def effects_of_def cleared_def opt_get_simps js_or_def)
      next
        case reads
        with Resolved d stores show ?thesis
          unfolding run_def
          by (simp add: login_defs action_defs Let_def effects_of_def)
      qed
    qed
  qed
qed


lemma register_paths:
  fixes conv B outcome email password name r w
  defines "run \<equiv> register conv B outcome email password name r"
  shows "\<exists>res w'. run w = (Inr res, w')
      \<and> loading w' = False
      \<and> clears_together (effects_of run w)
      \<and> ((\<exists>e. fst (register_try conv B outcome email password name r (snd (setLoading True w))) = Inl e)
            \<longleftrightarrow> response_fails conv outcome)
      \<and> (handler_ran (effects_of run w) \<longleftrightarrow> response_fails conv outcome)
      \<and> (response_fails conv outcome \<longrightarrow>
            cleared w'
            \<and> res = JObj [(''success'', JBool False),
                          (''error'',
                             case outcome of
                               Rejected rsp msg \<Rightarrow>
                                 js_or (js_or (opt_get (error_response_data (AxiosError rsp msg)) ''error'')
                                              (opt_get (error_response_data (AxiosError rsp msg)) ''message''))
                                       (JStr ''Registration failed'')
                             | Resolved d \<Rightarrow> JStr ''Registration failed'')])
      \<and> (\<not> response_fails conv outcome \<longrightarrow>
            res = JObj [(''success'', JBool True)]
            \<and> (\<exists>d. outcome = Resolved d \<and> user w' = opt_get d ''user''))"
proof (cases outcome)
  case (Rejected rsp msg)
  then show ?thesis
    unfolding run_def
    by (simp add: register_defs action_defs Let_def effects_of_def cleared_def)
next
  case (Resolved d)
  show ?thesis
  proof (cases rule: get_prop_cases[where v = d and k = "''user''"])
    case (throws m)
    with Resolved show ?thesis
      unfolding run_def
      by (auto simp: register_defs action_defs Let_def effects_of_def cleared_def opt_get_simps js_or_def)
  next
    case reads
    note d = this get_prop_defined[OF this(2,3), of "''access_token''"]
    show ?thesis
    proof (cases rule: token_cases[where v = "opt_get d ''access_token''" and conv = conv])
      case throws
      with Resolved d show ?thesis
        unfolding run_def
        by (simp add: register_defs action_defs Let_def effects_of_def cleared_def opt_get_simps js_or_def)
    next
      case falsy
      show ?thesis
      proof (cases rule: get_prop_cases[where v = "opt_get d ''user''" and k = "''role''"])
        case (throws m)
        with Resolved d falsy show ?thesis
          unfolding run_def
          by (auto simp: register_defs action_defs Let_def effects_of_def cleared_def opt_get_simps js_or_def)
      next
        case reads
        with Resolved d falsy show ?thesis
          unfolding run_def
          by (simp add: register_defs action_defs Let_def effects_of_def)
      qed
    next
      case (stores s)
      show ?thesis
      proof (cases rule: get_prop_cases[where v = "opt_get d ''user''" and k = "''role''"])
        case (throws m)
        with Resolved d stores show ?thesis
          unfolding run_def
          by (auto simp: register_defs action_defs Let_def effects_of_def cleared_def opt_get_simps js_or_def)
      next
        case reads
        with Resolved d stores show ?thesis
          unfolding run_def
          by (simp add: register_defs action_defs Let_def effects_of_def)
      qed
    qed
  qed
qed


text \<open>
  \<^verbatim>\<open>initializeAuth\<close> has a path of its own when no token is stored. With a token
  stored it ends like \<^verbatim>\<open>login\<close>: the \<^verbatim>\<open>try\<close> block throws and the \<^verbatim>\<open>catch\<close> block
  clears the session, or the fetched user and the token are adopted.
\<close>

lemma initializeAuth_paths:
  fixes conv B outcome w
  defines "run \<equiv> initializeAuth conv B outcome"
  shows "\<exists>w'. run w = (Inr JUndefined, w')
      \<and> loading w' = False
      \<and> clears_together (effects_of run w)
      \<and> ((\<exists>e. fst (initializeAuth_try conv B outcome (snd (setLoading True w))) = Inl e)
            \<longrightarrow> cleared w')
      \<and> (handler_ran (effects_of run w) \<longrightarrow> cleared w')
      \<and> (\<forall>s. storage w = Some s \<and> s \<noteq> [] \<longrightarrow>
            ((\<exists>e. fst (initializeAuth_try conv B outcome (snd (setLoading True w))) = Inl e)
               \<longleftrightarrow> fetch_fails conv s outcome)
            \<and> (handler_ran (effects_of run w) \<longleftrightarrow> fetch_fails conv s outcome)
            \<and> (fetch_fails conv s outcome \<longrightarrow> cleared w')
            \<and> (\<not> fetch_fails conv s outcome \<longrightarrow>
                  (\<exists>d. outcome = Resolved d
                     \<and> user w' = js_or (opt_get d ''user'') d
                     \<and> token w' = js_or (opt_get (js_or (opt_get d ''user'') d) ''access_token'')
                                       (JStr s)
                     \<and> storage w' = to_string conv (token w'))))"
proof (cases "truthy (case storage w of None \<Rightarrow> JNull | Some s \<Rightarrow> JStr s)")
  case False
  then show ?thesis
    unfolding run_def
    by (auto simp: initializeAuth_defs action_defs effects_of_def split: option.splits)
next
  case True
  then obtain s where s: "storage w = Some s" "s \<noteq> []"
    by (auto split: option.splits)
  show ?thesis
  proof (cases outcome)
    case (Rejected rsp msg)
    with s show ?thesis
      unfolding run_def
      by (simp add: initializeAuth_defs action_defs Let_def effects_of_def cleared_def)
  next
    case (Resolved d)
    show ?thesis
    proof (cases rule: get_prop_cases[where v = d and k = "''user''"])
      case (throws m)
      with s Resolved show ?thesis
        unfolding run_def
        by (auto simp: initializeAuth_defs action_defs Let_def effects_of_def cleared_def)
    next
      case reads
      define userData where "userData = js_or (opt_get d ''user'') d"
      define realToken where "realToken = js_or (opt_get userData ''access_token'') (JStr s)"
      have u: "userData \<noteq> JNull" "userData \<noteq> JUndefined"
        using reads(2,3) truthy_defined[of "opt_get d ''user''"]
        by (auto simp: userData_def js_or_def)
      have t: "truthy realToken"
        using s(2) by (simp add: realToken_def js_or_def)
      note facts = s Resolved reads u t get_prop_defined[OF u, of "''access_token''"]
      show ?thesis
      proof (cases rule: token_cases[where v = realToken and conv = conv])
        case falsy
        with t show ?thesis by simp
      next
        case throws
        with facts show ?thesis
          unfolding run_def
          by (simp add: initializeAuth_defs action_defs Let_def effects_of_def cleared_def
                userData_def[symmetric] realToken_def[symmetric])
      next
        case (stores p)
        with facts show ?thesis
          unfolding run_def
          by (simp add: initializeAuth_defs action_defs Let_def effects_of_def cleared_def
                userData_def[symmetric] realToken_def[symmetric])
      qed
    qed
  qed
qed

lemma logout_consistent:
  "clears_together (effects_of (logout B outcome) w) \<and> cleared (snd (logout B outcome w))"
  by (cases outcome) (simp_all add: logout_defs action_defs Let_def effects_of_def cleared_def)

text \<open>The message of a failure object is never falsy: the chain ends in a fixed string.\<close>

lemma truthy_js_or_default: "s \<noteq> [] \<Longrightarrow> truthy (js_or x (JStr s))"
  by (simp add: js_or_def)

section \<open>The claims\<close>

text \<open>
  Claim C1 (token and user stay consistent). In each of \<^verbatim>\<open>initializeAuth\<close>, \<^verbatim>\<open>login\<close>,
  \<^verbatim>\<open>register\<close> and \<^verbatim>\<open>logout\<close>, whatever the call to the backend does and whatever the
  state before: wherever the token is cleared (\<^verbatim>\<open>setToken(null)\<close> and
  \<^verbatim>\<open>localStorage.removeItem('token')\<close>), the user is cleared by \<^verbatim>\<open>setUser(null)\<close> in the
  same block, and the token is never set to a falsy value otherwise. And every failure
  path ends with no user, no token and nothing persisted. The failure paths are given
  three times over: by what the request does (it rejects, or its response cannot be
  used: \<open>response_fails\<close>, \<open>fetch_fails\<close>), by the \<^verbatim>\<open>try\<close> block throwing, and by the
  \<^verbatim>\<open>catch\<close> block having run; \<^verbatim>\<open>logout\<close> clears on every path.
\<close>

theorem token_user_consistency:
  "clears_together (effects_of (initializeAuth conv B outcome) w)
   \<and> clears_together (effects_of (login conv B outcome email password) w)
   \<and> clears_together (effects_of (register conv B outcome email password name r) w)
   \<and> clears_together (effects_of (logout B outcome) w)
   \<and> (\<forall>s. storage w = Some s \<and> s \<noteq> [] \<and> fetch_fails conv s outcome
          \<longrightarrow> cleared (snd (initializeAuth conv B outcome w)))
   \<and> (response_fails conv outcome
          \<longrightarrow> cleared (snd (login conv B outcome email password w)))
   \<and> (response_fails conv outcome
          \<longrightarrow> cleared (snd (register conv B outcome email password name r w)))
   \<and> cleared (snd (logout B outcome w))
   \<and> ((\<exists>e. fst (initializeAuth_try conv B outcome (snd (setLoading True w))) = Inl e)
          \<longrightarrow> cleared (snd (initializeAuth conv B outcome w)))
   \<and> ((\<exists>e. fst (login_try conv B outcome email password (snd (setLoading True w))) = Inl e)
          \<longrightarrow> cleared (snd (login conv B outcome email password w)))
   \<and> ((\<exists>e. fst (register_try conv B outcome email password name r (snd (setLoading True w)))
               = Inl e)
          \<longrightarrow> cleared (snd (register conv B outcome email password name r w)))
   \<and> (handler_ran (effects_of (initializeAuth conv B outcome) w)
          \<longrightarrow> cleared (snd (initializeAuth conv B outcome w)))
   \<and> (handler_ran (effects_of (login conv B outcome email password) w)
          \<longrightarrow> cleared (snd (login conv B outcome email password w)))
   \<and> (handler_ran (effects_of (register conv B outcome email password name r) w)
          \<longrightarrow> cleared (snd (register conv B outcome email password name r w)))"
proof -
  obtain wi where i: "initializeAuth conv B outcome w = (Inr JUndefined, wi)"
      "clears_together (effects_of (initializeAuth conv B outcome) w)"
      "(\<exists>e. fst (initializeAuth_try conv B outcome (snd (setLoading True w))) = Inl e)
         \<longrightarrow> cleared wi"
      "handler_ran (effects_of (initializeAuth conv B outcome) w) \<longrightarrow> cleared wi"
      "\<forall>s. storage w = Some s \<and> s \<noteq> [] \<longrightarrow> (fetch_fails conv s outcome \<longrightarrow> cleared wi)"
    using initializeAuth_paths[of conv B outcome w] by blast
  obtain rl wl where l: "login conv B outcome email password w = (Inr rl, wl)"
      "clears_together (effects_of (login conv B outcome email password) w)"
      "(\<exists>e. fst (login_try conv B outcome email password (snd (setLoading True w))) = Inl e)
         \<longleftrightarrow> response_fails conv outcome"
      "handler_ran (effects_of (login conv B outcome email password) w)
         \<longleftrightarrow> response_fails conv outcome"
      "response_fails conv outcome \<longrightarrow> cleared wl"
    using login_paths[of conv B outcome email password w] by blast
  obtain rr wr where r: "register conv B outcome email password name r w = (Inr rr, wr)"
      "clears_together (effects_of (register conv B outcome email password name r) w)"
      "(\<exists>e. fst (register_try conv B outcome email password name r (snd (setLoading True w)))
              = Inl e)
         \<longleftrightarrow> response_fails conv outcome"
      "handler_ran (effects_of (register conv B outcome email password name r) w)
         \<longleftrightarrow> response_fails conv outcome"
      "response_fails conv outcome \<longrightarrow> cleared wr"
    using register_paths[of conv B outcome email password name r w] by blast
  note o = logout_consistent[of B outcome w]
  have 1: "clears_together (effects_of (initializeAuth conv B outcome) w)
           \<and> clears_together (effects_of (login conv B outcome email password) w)
           \<and> clears_together (effects_of (register conv B outcome email password name r) w)
           \<and> clears_together (effects_of (logout B outcome) w)"
    using i(2) l(2) r(2) o by simp
  have 2: "(\<forall>s. storage w = Some s \<and> s \<noteq> [] \<and> fetch_fails conv s outcome
                \<longrightarrow> cleared (snd (initializeAuth conv B outcome w)))
           \<and> ((\<exists>e. fst (initializeAuth_try conv B outcome (snd (setLoading True w))) = Inl e)
                \<longrightarrow> cleared (snd (initializeAuth conv B outcome w)))
           \<and> (handler_ran (effects_of (initializeAuth conv B outcome) w)
                \<longrightarrow> cleared (snd (initializeAuth conv B outcome w)))"
    using i(3,4,5) by (auto simp: i(1))
  have 3: "(response_fails conv outcome
                \<longrightarrow> cleared (snd (login conv B outcome email password w)))
           \<and> ((\<exists>e. fst (login_try conv B outcome email password (snd (setLoading True w)))
                      = Inl e)
                \<longrightarrow> cleared (snd (login conv B outcome email password w)))
           \<and> (handler_ran (effects_of (login conv B outcome email password) w)
                \<longrightarrow> cleared (snd (login conv B outcome email password w)))"
    using l(3,4,5) by (auto simp: l(1))
  have 4: "(response_fails conv outcome
                \<longrightarrow> cleared (snd (register conv B outcome email password name r w)))
           \<and> ((\<exists>e. fst (register_try conv B outcome email password name r
                            (snd (setLoading True w))) = Inl e)
                \<longrightarrow> cleared (snd (register conv B outcome email password name r w)))
           \<and> (handler_ran (effects_of (register conv B outcome email password name r) w)
                \<longrightarrow> cleared (snd (register conv B outcome email password name r w)))"
    using r(3,4,5) by (auto simp: r(1))
  show ?thesis
    using 1 2 3 4 o by blast
qed

text \<open>A session restored from the token \<^verbatim>\<open>old\<close>, and a backend that is unreachable: a
  failure path of each operation, which ends cleared.\<close>

theorem token_user_consistency_witness:
  "storage (initial_world (Some ''old'')) = Some ''old''
   \<and> fetch_fails no_conversion ''old'' (Rejected None ''Network Error'')
   \<and> response_fails no_conversion (Rejected None ''Network Error'')
   \<and> cleared (snd (initializeAuth no_conversion [] (Rejected None ''Network Error'')
                     (initial_world (Some ''old''))))
   \<and> cleared (snd (login no_conversion [] (Rejected None ''Network Error'')
                     (JStr ''a@b.com'') (JStr ''pw'') (initial_world (Some ''old''))))
   \<and> cleared (snd (register no_conversion [] (Rejected None ''Network Error'')
                     (JStr ''a@b.com'') (JStr ''pw'') (JStr ''Ann'') JUndefined
                     (initial_world (Some ''old''))))"
proof -
  have s: "storage (initial_world (Some ''old'')) = Some ''old''"
    by (simp add: initial_world_def)
  have f: "fetch_fails no_conversion ''old'' (Rejected None ''Network Error'')"
          "response_fails no_conversion (Rejected None ''Network Error'')"
    by simp_all
  show ?thesis
    using s f
      token_user_consistency[of no_conversion "[]" "Rejected None ''Network Error''"
        "initial_world (Some ''old'')" "JStr ''a@b.com''" "JStr ''pw''" "JStr ''Ann''" JUndefined]
    by auto
qed

text \<open>
  Claim C2 (login and register never throw). Whatever the backend answers and however
  the call fails, \<^verbatim>\<open>login\<close> and \<^verbatim>\<open>register\<close> return normally, with \<^verbatim>\<open>{success: true}\<close>
  or with \<^verbatim>\<open>{success: false, error: m}\<close> where \<open>m\<close> is truthy. A rejected request, with
  or without a response, yields the failure object, its message being the \<^verbatim>\<open>error\<close>
  field of the payload, else the \<^verbatim>\<open>message\<close> field, else the fixed string. An error
  thrown on a resolved request (no body, no user, a token that cannot be stored) yields
  the failure object with the fixed string. Every other request yields
  \<^verbatim>\<open>{success: true}\<close>.
\<close>

theorem login_register_never_throw:
  "(\<exists>res w'. login conv B outcome email password w = (Inr res, w')
      \<and> (res = JObj [(''success'', JBool True)]
         \<or> (\<exists>m. truthy m \<and> res = JObj [(''success'', JBool False), (''error'', m)]))
      \<and> (\<forall>rsp msg. outcome = Rejected rsp msg \<longrightarrow>
            res = JObj [(''success'', JBool False),
                        (''error'',
                           js_or (js_or (opt_get (error_response_data (AxiosError rsp msg)) ''error'')
                                        (opt_get (error_response_data (AxiosError rsp msg)) ''message''))
                                 (JStr ''Login failed''))])
      \<and> (\<forall>d. outcome = Resolved d \<and> response_fails conv outcome \<longrightarrow>
            res = JObj [(''success'', JBool False), (''error'', JStr ''Login failed'')])
      \<and> (\<not> response_fails conv outcome \<longrightarrow> res = JObj [(''success'', JBool True)]))
   \<and> (\<exists>res w'. register conv B outcome email password name r w = (Inr res, w')
      \<and> (res = JObj [(''success'', JBool True)]
         \<or> (\<exists>m. truthy m \<and> res = JObj [(''success'', JBool False), (''error'', m)]))
      \<and> (\<forall>rsp msg. outcome = Rejected rsp msg \<longrightarrow>
            res = JObj [(''success'', JBool False),
                        (''error'',
                           js_or (js_or (opt_get (error_response_data (AxiosError rsp msg)) ''error'')
                                        (opt_get (error_response_data (AxiosError rsp msg)) ''message''))
                                 (JStr ''Registration failed''))])
      \<and> (\<forall>d. outcome = Resolved d \<and> response_fails conv outcome \<longrightarrow>
            res = JObj [(''success'', JBool False), (''error'', JStr ''Registration failed'')])
      \<and> (\<not> response_fails conv outcome \<longrightarrow> res = JObj [(''success'', JBool True)]))"
proof (rule conjI)
  obtain res w' where p: "login conv B outcome email password w = (Inr res, w')"
      "response_fails conv outcome \<longrightarrow>
         res = JObj [(''success'', JBool False),
                     (''error'',
                        case outcome of
                          Rejected rsp msg \<Rightarrow>
                            js_or (js_or (opt_get (error_response_data (AxiosError rsp msg)) ''error'')
                                         (opt_get (error_response_data (AxiosError rsp msg)) ''message''))
                                  (JStr ''Login failed'')
                        | Resolved d \<Rightarrow> JStr ''Login failed'')]"
      "\<not> response_fails conv outcome \<longrightarrow> res = JObj [(''success'', JBool True)]"
    using login_paths[of conv B outcome email password w] by blast
  have "res = JObj [(''success'', JBool True)]
         \<or> (\<exists>m. truthy m \<and> res = JObj [(''success'', JBool False), (''error'', m)])"
  proof (cases "response_fails conv outcome")
    case False
    with p(3) show ?thesis by simp
  next
    case True
    with p(2) show ?thesis
      by (cases outcome) (auto simp: truthy_js_or_default simp del: response_fails.simps)
  qed
  moreover have "\<forall>rsp msg. outcome = Rejected rsp msg \<longrightarrow>
            res = JObj [(''success'', JBool False),
                        (''error'',
                           js_or (js_or (opt_get (error_response_data (AxiosError rsp msg)) ''error'')
                                        (opt_get (error_response_data (AxiosError rsp msg)) ''message''))
                                 (JStr ''Login failed''))]"
    using p(2) by auto
  moreover have "\<forall>d. outcome = Resolved d \<and> response_fails conv outcome \<longrightarrow>
            res = JObj [(''success'', JBool False), (''error'', JStr ''Login failed'')]"
    using p(2) by (auto simp del: response_fails.simps)
  ultimately show "\<exists>res w'. login conv B outcome email password w = (Inr res, w')
      \<and> (res = JObj [(''success'', JBool True)]
         \<or> (\<exists>m. truthy m \<and> res = JObj [(''success'', JBool False), (''error'', m)]))
      \<and> (\<forall>rsp msg. outcome = Rejected rsp msg \<longrightarrow>
            res = JObj [(''success'', JBool False),
                        (''error'',
                           js_or (js_or (opt_get (error_response_data (AxiosError rsp msg)) ''error'')
                                        (opt_get (error_response_data (AxiosError rsp msg)) ''message''))
                                 (JStr ''Login failed''))])
      \<and> (\<forall>d. outcome = Resolved d \<and> response_fails conv outcome \<longrightarrow>
            res = JObj [(''success'', JBool False), (''error'', JStr ''Login failed'')])
      \<and> (\<not> response_fails conv outcome \<longrightarrow> res = JObj [(''success'', JBool True)])"
    using p(1,3) by (intro exI[of _ res] exI[of _ w'] conjI)
next
  obtain res w' where p: "register conv B outcome email password name r w = (Inr res, w')"
      "response_fails conv outcome \<longrightarrow>
         res = JObj [(''success'', JBool False),
                     (''error'',
                        case outcome of
                          Rejected rsp msg \<Rightarrow>
                            js_or (js_or (opt_get (error_response_data (AxiosError rsp msg)) ''error'')
                                         (opt_get (error_response_data (AxiosError rsp msg)) ''message''))
                                  (JStr ''Registration failed'')
                        | Resolved d \<Rightarrow> JStr ''Registration failed'')]"
      "\<not> response_fails conv outcome \<longrightarrow> res = JObj [(''success'', JBool True)]"
    using register_paths[of conv B outcome email password name r w] by blast
  have "res = JObj [(''success'', JBool True)]
         \<or> (\<exists>m. truthy m \<and> res = JObj [(''success'', JBool False), (''error'', m)])"
  proof (cases "response_fails conv outcome")
    case False
    with p(3) show ?thesis by simp
  next
    case True
    with p(2) show ?thesis
      by (cases outcome) (auto simp: truthy_js_or_default simp del: response_fails.simps)
  qed
  moreover have "\<forall>rsp msg. outcome = Rejected rsp msg \<longrightarrow>
            res = JObj [(''success'', JBool False),
                        (''error'',
                           js_or (js_or (opt_get (error_response_data (AxiosError rsp msg)) ''error'')
                                        (opt_get (error_response_data (AxiosError rsp msg)) ''message''))
                                 (JStr ''Registration failed''))]"
    using p(2) by auto
  moreover have "\<forall>d. outcome = Resolved d \<and> response_fails conv outcome \<longrightarrow>
            res = JObj [(''success'', JBool False), (''error'', JStr ''Registration failed'')]"
    using p(2) by (auto simp del: response_fails.simps)
  ultimately show "\<exists>res w'. register conv B outcome email password name r w = (Inr res, w')
      \<and> (res = JObj [(''success'', JBool True)]
         \<or> (\<exists>m. truthy m \<and> res = JObj [(''success'', JBool False), (''error'', m)]))
      \<and> (\<forall>rsp msg. outcome = Rejected rsp msg \<longrightarrow>
            res = JObj [(''success'', JBool False),
                        (''error'',
                           js_or (js_or (opt_get (error_response_data (AxiosError rsp msg)) ''error'')
                                        (opt_get (error_response_data (AxiosError rsp msg)) ''message''))
                                 (JStr ''Registration failed''))])
      \<and> (\<forall>d. outcome = Resolved d \<and> response_fails conv outcome \<longrightarrow>
            res = JObj [(''success'', JBool False), (''error'', JStr ''Registration failed'')])
      \<and> (\<not> response_fails conv outcome \<longrightarrow> res = JObj [(''success'', JBool True)])"
    using p(1,3) by (intro exI[of _ res] exI[of _ w'] conjI)
qed

text \<open>An unreachable backend gives the failure object with the fixed message; a
  response without a user gives it too; the example of the specification gives
  \<^verbatim>\<open>{success: true}\<close>.\<close>

theorem login_register_never_throw_witness:
  "fst (login no_conversion [] (Rejected None ''Network Error'')
            (JStr ''a@b.com'') (JStr ''pw'') (initial_world None))
       = Inr (JObj [(''success'', JBool False), (''error'', JStr ''Login failed'')])
   \<and> fst (register no_conversion [] (Rejected None ''Network Error'')
            (JStr ''a@b.com'') (JStr ''pw'') (JStr ''Ann'') JUndefined (initial_world None))
       = Inr (JObj [(''success'', JBool False), (''error'', JStr ''Registration failed'')])
   \<and> response_fails no_conversion (Resolved (JObj [(''access_token'', JStr ''t'')]))
   \<and> fst (login no_conversion [] (Resolved (JObj [(''access_token'', JStr ''t'')]))
            (JStr ''a@b.com'') (JStr ''pw'') (initial_world None))
       = Inr (JObj [(''success'', JBool False), (''error'', JStr ''Login failed'')])
   \<and> \<not> response_fails no_conversion
          (Resolved (JObj [(''user'', JObj [(''role'', JStr ''admin'')]),
                           (''access_token'', JStr ''t'')]))
   \<and> fst (login no_conversion []
            (Resolved (JObj [(''user'', JObj [(''role'', JStr ''admin'')]),
                             (''access_token'', JStr ''t'')]))
            (JStr ''a@b.com'') (JStr ''pw'') (initial_world None))
       = Inr (JObj [(''success'', JBool True)])"
proof -
  have f: "response_fails no_conversion (Resolved (JObj [(''access_token'', JStr ''t'')]))"
    by (simp add: opt_get_simps)
  have g: "\<not> response_fails no_conversion
              (Resolved (JObj [(''user'', JObj [(''role'', JStr ''admin'')]),
                               (''access_token'', JStr ''t'')]))"
    by (simp add: opt_get_simps storable_def to_string_def)
  have a: "fst (login no_conversion [] (Rejected None ''Network Error'')
            (JStr ''a@b.com'') (JStr ''pw'') (initial_world None))
       = Inr (JObj [(''success'', JBool False), (''error'', JStr ''Login failed'')])
     \<and> fst (register no_conversion [] (Rejected None ''Network Error'')
            (JStr ''a@b.com'') (JStr ''pw'') (JStr ''Ann'') JUndefined (initial_world None))
       = Inr (JObj [(''success'', JBool False), (''error'', JStr ''Registration failed'')])"
    using login_register_never_throw[of no_conversion "[]" "Rejected None ''Network Error''"
        "JStr ''a@b.com''" "JStr ''pw''" "initial_world None" "JStr ''Ann''" JUndefined]
    by (auto simp: opt_get_simps js_or_def)
  have b: "fst (login no_conversion [] (Resolved (JObj [(''access_token'', JStr ''t'')]))
            (JStr ''a@b.com'') (JStr ''pw'') (initial_world None))
       = Inr (JObj [(''success'', JBool False), (''error'', JStr ''Login failed'')])"
    using f login_register_never_throw[of no_conversion "[]"
        "Resolved (JObj [(''access_token'', JStr ''t'')])"
        "JStr ''a@b.com''" "JStr ''pw''" "initial_world None" "JStr ''Ann''" JUndefined]
    by auto
  have c: "fst (login no_conversion []
            (Resolved (JObj [(''user'', JObj [(''role'', JStr ''admin'')]),
                             (''access_token'', JStr ''t'')]))
            (JStr ''a@b.com'') (JStr ''pw'') (initial_world None))
       = Inr (JObj [(''success'', JBool True)])"
    using g login_register_never_throw[of no_conversion "[]"
        "Resolved (JObj [(''user'', JObj [(''role'', JStr ''admin'')]),
                         (''access_token'', JStr ''t'')])"
        "JStr ''a@b.com''" "JStr ''pw''" "initial_world None" "JStr ''Ann''" JUndefined]
    by auto
  show ?thesis
    using a b c f g by blast
qed

text \<open>
  Claim C3 (initialize without a persisted token). If \<^verbatim>\<open>localStorage\<close> holds no token
  (no entry, or the empty string, which \<^verbatim>\<open>!storedToken\<close> treats alike),
  \<^verbatim>\<open>initializeAuth\<close> returns with the user \<^verbatim>\<open>null\<close> and loading \<^verbatim>\<open>false\<close>; it sends no
  request and leaves the stored token and the token state as they were. Its only effects
  are the four state updates listed.
\<close>

theorem initializeAuth_no_token:
  assumes "storage w = None \<or> storage w = Some []"
  shows "\<exists>w'. initializeAuth conv B outcome w = (Inr JUndefined, w')
            \<and> user w' = JNull \<and> loading w' = False
            \<and> storage w' = storage w \<and> token w' = token w
            \<and> effects_of (initializeAuth conv B outcome) w =
                 [SetLoading True, SetUser JNull, SetLoading False, SetLoading False]
            \<and> requests (effects_of (initializeAuth conv B outcome) w) = []"
  using assms by (auto simp: initializeAuth_defs action_defs effects_of_def)

theorem initializeAuth_no_token_witness:
  "storage (initial_world None) = None
   \<and> initializeAuth no_conversion []
       (Resolved (JObj [(''user'', JObj [(''role'', JStr ''admin'')])])) (initial_world None)
     = (Inr JUndefined,
        \<lparr>user = JNull, token = JNull, loading = False, storage = None,
         trace = [SetLoading True, SetUser JNull, SetLoading False, SetLoading False]\<rparr>)"
  using initializeAuth_no_token[of "initial_world None" no_conversion "[]"
      "Resolved (JObj [(''user'', JObj [(''role'', JStr ''admin'')])])"]
  by (auto simp: initial_world_def effects_of_def)

text \<open>
  Claim C4 (initialize with a valid token), as amended. Let a non-empty token \<open>s\<close> be
  persisted and let the current-user request resolve with a body \<open>d\<close> (anything but
  \<^verbatim>\<open>null\<close> and \<^verbatim>\<open>undefined\<close>). The fetched user is \<^verbatim>\<open>d.user\<close> if that is truthy and
  \<open>d\<close> itself otherwise, and the only refreshed token that is read is the
  \<^verbatim>\<open>access_token\<close> of that fetched user: an \<^verbatim>\<open>access_token\<close> that the response
  carries beside a truthy \<^verbatim>\<open>user\<close> is not looked at. If the token of the fetched user
  is falsy or can be stored (as every string can), \<^verbatim>\<open>initializeAuth\<close> returns with the
  fetched user as user and with loading \<^verbatim>\<open>false\<close>; the token is the one of the fetched
  user if that is truthy, and \<open>s\<close> otherwise; and the token is written back to
  \<^verbatim>\<open>localStorage\<close>, a string as it is.
\<close>

theorem initializeAuth_valid_token:
  assumes "storage w = Some s" and "s \<noteq> []" and "d \<noteq> JNull" and "d \<noteq> JUndefined"
      and "storable conv (opt_get (js_or (opt_get d ''user'') d) ''access_token'')"
  shows "\<exists>w'. initializeAuth conv B (Resolved d) w = (Inr JUndefined, w')
            \<and> user w' = js_or (opt_get d ''user'') d
            \<and> token w' = js_or (opt_get (js_or (opt_get d ''user'') d) ''access_token'') (JStr s)
            \<and> storage w' = to_string conv (token w')
            \<and> loading w' = False
            \<and> (\<not> truthy (opt_get (js_or (opt_get d ''user'') d) ''access_token'') \<longrightarrow>
                   token w' = JStr s \<and> storage w' = Some s)
            \<and> (\<forall>t. opt_get (js_or (opt_get d ''user'') d) ''access_token'' = JStr t \<and> t \<noteq> []
                   \<longrightarrow> token w' = JStr t \<and> storage w' = Some t)
            \<and> (truthy (opt_get d ''user'')
                 \<and> \<not> truthy (opt_get (opt_get d ''user'') ''access_token'')
                   \<longrightarrow> token w' = JStr s \<and> storage w' = Some s)"
proof -
  define userData where "userData = js_or (opt_get d ''user'') d"
  define tok where "tok = opt_get userData ''access_token''"
  define realToken where "realToken = js_or tok (JStr s)"
  have f: "\<not> fetch_fails conv s (Resolved d)"
    using assms(3,4,5) storable_JStr[of conv s]
    by (simp add: js_or_def)
  obtain w' where w': "initializeAuth conv B (Resolved d) w = (Inr JUndefined, w')"
      "loading w' = False" "user w' = userData" "token w' = realToken"
      "storage w' = to_string conv (token w')"
    using initializeAuth_paths[of conv B "Resolved d" w] assms(1,2) f
    unfolding userData_def tok_def realToken_def by blast
  have a: "\<not> truthy tok \<longrightarrow> token w' = JStr s \<and> storage w' = Some s"
    using w'(4,5) by (simp add: realToken_def js_or_def to_string_def)
  have b: "\<forall>t. tok = JStr t \<and> t \<noteq> [] \<longrightarrow> token w' = JStr t \<and> storage w' = Some t"
    using w'(4,5) by (simp add: realToken_def js_or_def to_string_def)
  have c: "truthy (opt_get d ''user'') \<and> \<not> truthy (opt_get (opt_get d ''user'') ''access_token'')
             \<longrightarrow> token w' = JStr s \<and> storage w' = Some s"
    using a by (auto simp: tok_def userData_def js_or_def)
  show ?thesis
    using w' a b c unfolding userData_def tok_def realToken_def
    by (intro exI[of _ w']) (simp add: to_string_JStr)
qed

text \<open>The token \<^verbatim>\<open>old\<close> is kept when the user comes without a token, and replaced by
  \<^verbatim>\<open>new\<close> when the fetched user record carries one.\<close>

theorem initializeAuth_valid_token_witness:
  "storage (initial_world (Some ''old'')) = Some ''old''
   \<and> storable no_conversion
        (opt_get (js_or (opt_get (JObj [(''user'', JObj [(''role'', JStr ''customer'')])]) ''user'')
                        (JObj [(''user'', JObj [(''role'', JStr ''customer'')])]))
           ''access_token'')
   \<and> (\<exists>w'. initializeAuth no_conversion []
              (Resolved (JObj [(''user'', JObj [(''role'', JStr ''customer'')])]))
              (initial_world (Some ''old'')) = (Inr JUndefined, w')
          \<and> user w' = JObj [(''role'', JStr ''customer'')]
          \<and> token w' = JStr ''old'' \<and> storage w' = Some ''old'' \<and> loading w' = False)
   \<and> (\<exists>w'. initializeAuth no_conversion []
              (Resolved (JObj [(''role'', JStr ''customer''), (''access_token'', JStr ''new'')]))
              (initial_world (Some ''old'')) = (Inr JUndefined, w')
          \<and> token w' = JStr ''new'' \<and> storage w' = Some ''new'')"
proof -
  have s: "storage (initial_world (Some ''old'')) = Some ''old''"
    by (simp add: initial_world_def)
  have n: "''old'' \<noteq> []" "JObj [(''user'', JObj [(''role'', JStr ''customer'')])] \<noteq> JNull"
      "JObj [(''user'', JObj [(''role'', JStr ''customer'')])] \<noteq> JUndefined"
      "JObj [(''role'', JStr ''customer''), (''access_token'', JStr ''new'')] \<noteq> JNull"
      "JObj [(''role'', JStr ''customer''), (''access_token'', JStr ''new'')] \<noteq> JUndefined"
    by simp_all
  have a: "storable no_conversion
        (opt_get (js_or (opt_get (JObj [(''user'', JObj [(''role'', JStr ''customer'')])]) ''user'')
                        (JObj [(''user'', JObj [(''role'', JStr ''customer'')])]))
           ''access_token'')"
    by (simp add: opt_get_simps js_or_def storable_def)
  have b: "storable no_conversion
        (opt_get (js_or (opt_get (JObj [(''role'', JStr ''customer''),
                                        (''access_token'', JStr ''new'')]) ''user'')
                        (JObj [(''role'', JStr ''customer''), (''access_token'', JStr ''new'')]))
           ''access_token'')"
    by (simp add: opt_get_simps js_or_def storable_def to_string_def)
  show ?thesis
    using s a
      initializeAuth_valid_token[OF s n(1,2,3) a, of "[]"]
      initializeAuth_valid_token[OF s n(1,4,5) b, of "[]"]
    by (auto simp: opt_get_simps js_or_def)
qed

text \<open>
  Claim C4 as stated fails for a response that provides a refreshed token beside the
  user: \<^verbatim>\<open>{user: {role: "customer"}, access_token: "new"}\<close>, the shape the login
  response has. With \<^verbatim>\<open>old\<close> persisted, \<^verbatim>\<open>initializeAuth\<close> adopts the user and keeps
  \<^verbatim>\<open>old\<close>, in the state and in \<^verbatim>\<open>localStorage\<close>.
\<close>

theorem refreshed_token_counterexample:
  "initializeAuth no_conversion []
     (Resolved (JObj [(''user'', JObj [(''role'', JStr ''customer'')]),
                      (''access_token'', JStr ''new'')]))
     (initial_world (Some ''old''))
   = (Inr JUndefined,
      \<lparr>user = JObj [(''role'', JStr ''customer'')], token = JStr ''old'', loading = False,
       storage = Some ''old'',
       trace = [SetLoading True,
                Request \<lparr>http_method = ''GET'', url = ''/api/auth/me/'', body = JUndefined,
                         authorization = Some ''Bearer old''\<rparr>,
                SetUser (JObj [(''role'', JStr ''customer'')]),
                StorageSet ''old'', SetToken (JStr ''old''), SetLoading False]\<rparr>)"
  by (simp add: initial_world_def initializeAuth_defs action_defs Let_def js_or_def
        opt_get_simps interceptor_def API_def to_string_def)

text \<open>
  Claim C5 (initialize with a token the backend refuses). \<^verbatim>\<open>initializeAuth\<close> never throws
  and always ends with loading \<^verbatim>\<open>false\<close>. If a non-empty token is persisted and the
  current-user fetch fails (the call rejects, with or without a response, or resolves
  without a body), the user, the token and the persisted token are cleared; the error is
  logged by the \<^verbatim>\<open>catch\<close> block and goes no further.
\<close>

theorem initializeAuth_failure:
  "fst (initializeAuth conv B outcome w) = Inr JUndefined
   \<and> loading (snd (initializeAuth conv B outcome w)) = False
   \<and> (storage w = Some s \<and> s \<noteq> []
        \<and> (outcome = Rejected rsp msg \<or> outcome = Resolved JNull
            \<or> outcome = Resolved JUndefined)
      \<longrightarrow> cleared (snd (initializeAuth conv B outcome w))
          \<and> handler_ran (effects_of (initializeAuth conv B outcome) w))"
proof -
  obtain w' where w': "initializeAuth conv B outcome w = (Inr JUndefined, w')"
      "loading w' = False"
    using initializeAuth_paths[of conv B outcome w] by blast
  have "storage w = Some s \<and> s \<noteq> []
        \<and> (outcome = Rejected rsp msg \<or> outcome = Resolved JNull
            \<or> outcome = Resolved JUndefined)
      \<longrightarrow> cleared (snd (initializeAuth conv B outcome w))
          \<and> handler_ran (effects_of (initializeAuth conv B outcome) w)"
    by (auto simp: initializeAuth_defs action_defs Let_def cleared_def effects_of_def)
  then show ?thesis
    using w' by simp
qed

theorem initializeAuth_failure_witness:
  "storage (initial_world (Some ''old'')) = Some ''old''
   \<and> initializeAuth no_conversion []
       (Rejected (Some (JObj [(''detail'', JStr ''Token expired'')]))
          ''Request failed with status code 401'')
       (initial_world (Some ''old''))
     = (Inr JUndefined,
        \<lparr>user = JNull, token = JNull, loading = False, storage = None,
         trace = [SetLoading True,
                  Request \<lparr>http_method = ''GET'', url = ''/api/auth/me/'', body = JUndefined,
                           authorization = Some ''Bearer old''\<rparr>,
                  ConsoleError ''Error fetching user during init:''
                    (ErrorArg (AxiosError (Some (JObj [(''detail'', JStr ''Token expired'')]))
                                 ''Request failed with status code 401'')),
                  SetUser JNull, SetToken JNull, StorageRemove, SetLoading False]\<rparr>)"
  using initializeAuth_failure[of no_conversion "[]"
      "Rejected (Some (JObj [(''detail'', JStr ''Token expired'')]))
         ''Request failed with status code 401''"
      "initial_world (Some ''old'')" "''old''"
      "Some (JObj [(''detail'', JStr ''Token expired'')])"
      "''Request failed with status code 401''"]
  by (simp add: initial_world_def initializeAuth_defs action_defs Let_def interceptor_def
        API_def)

text \<open>
  Claim C6 (successful login). Let the login request resolve with a body \<open>d\<close> whose
  \<^verbatim>\<open>user\<close> is a value \<open>u\<close> with a readable \<^verbatim>\<open>role\<close> (so: a body, and a user that is not
  \<^verbatim>\<open>null\<close> or \<^verbatim>\<open>undefined\<close>), and whose \<^verbatim>\<open>access_token\<close> is a string or falsy. Then
  \<^verbatim>\<open>login\<close> returns \<^verbatim>\<open>{success: true}\<close>, the user is \<open>u\<close>, and the one navigation goes
  to \<^verbatim>\<open>/dashboard/admin\<close> if the role is the string \<^verbatim>\<open>admin\<close> and to
  \<^verbatim>\<open>/dashboard/customer\<close> for every other role. If the \<^verbatim>\<open>access_token\<close> is a non-empty
  string \<open>t\<close>, then \<open>t\<close> is the token in the state and in \<^verbatim>\<open>localStorage\<close>.
\<close>

theorem login_success:
  assumes "get_prop d ''user'' = Inr u" and "get_prop u ''role'' = Inr ro"
      and "(\<exists>t. opt_get d ''access_token'' = JStr t) \<or> \<not> truthy (opt_get d ''access_token'')"
  shows "\<exists>w'. login conv B (Resolved d) email password w
                 = (Inr (JObj [(''success'', JBool True)]), w')
            \<and> user w' = u \<and> loading w' = False
            \<and> navigations (effects_of (login conv B (Resolved d) email password) w) =
                [if ro = JStr ''admin'' then ''/dashboard/admin'' else ''/dashboard/customer'']
            \<and> (\<forall>t. opt_get d ''access_token'' = JStr t \<and> t \<noteq> [] \<longrightarrow>
                   token w' = JStr t \<and> storage w' = Some t)"
  using assms get_prop_other_key[OF assms(1), of "''access_token''"]
  by (auto simp: login_defs action_defs Let_def effects_of_def to_string_def)

text \<open>The example of the specification: \<^verbatim>\<open>login("a@b.com", "pw")\<close> answered by
  \<^verbatim>\<open>{user: {role: "admin"}, access_token: "t"}\<close>; and the same for a customer.\<close>

theorem login_success_witness:
  "get_prop (JObj [(''user'', JObj [(''role'', JStr ''admin'')]), (''access_token'', JStr ''t'')])
     ''user'' = Inr (JObj [(''role'', JStr ''admin'')])
   \<and> get_prop (JObj [(''role'', JStr ''admin'')]) ''role'' = Inr (JStr ''admin'')
   \<and> opt_get (JObj [(''user'', JObj [(''role'', JStr ''admin'')]),
                     (''access_token'', JStr ''t'')]) ''access_token'' = JStr ''t''
   \<and> (\<exists>w'. login no_conversion []
               (Resolved (JObj [(''user'', JObj [(''role'', JStr ''admin'')]),
                                (''access_token'', JStr ''t'')]))
               (JStr ''a@b.com'') (JStr ''pw'') (initial_world None)
             = (Inr (JObj [(''success'', JBool True)]), w')
           \<and> user w' = JObj [(''role'', JStr ''admin'')]
           \<and> token w' = JStr ''t'' \<and> storage w' = Some ''t'')
   \<and> navigations (effects_of (login no_conversion []
               (Resolved (JObj [(''user'', JObj [(''role'', JStr ''admin'')]),
                                (''access_token'', JStr ''t'')]))
               (JStr ''a@b.com'') (JStr ''pw'')) (initial_world None)) = [''/dashboard/admin'']
   \<and> navigations (effects_of (login no_conversion []
               (Resolved (JObj [(''user'', JObj [(''role'', JStr ''customer'')]),
                                (''access_token'', JStr ''t'')]))
               (JStr ''a@b.com'') (JStr ''pw'')) (initial_world None)) = [''/dashboard/customer'']"
proof -
  have a: "get_prop (JObj [(''user'', JObj [(''role'', JStr ''admin'')]),
                           (''access_token'', JStr ''t'')]) ''user''
             = Inr (JObj [(''role'', JStr ''admin'')])"
    by simp
  have b: "get_prop (JObj [(''role'', JStr ''admin'')]) ''role'' = Inr (JStr ''admin'')"
    by simp
  have t: "opt_get (JObj [(''user'', JObj [(''role'', JStr ''admin'')]),
                     (''access_token'', JStr ''t'')]) ''access_token'' = JStr ''t''"
    by (simp add: opt_get_simps)
  have c: "get_prop (JObj [(''user'', JObj [(''role'', JStr ''customer'')]),
                           (''access_token'', JStr ''t'')]) ''user''
             = Inr (JObj [(''role'', JStr ''customer'')])"
    by simp
  have d: "get_prop (JObj [(''role'', JStr ''customer'')]) ''role'' = Inr (JStr ''customer'')"
    by simp
  have t': "opt_get (JObj [(''user'', JObj [(''role'', JStr ''customer'')]),
                     (''access_token'', JStr ''t'')]) ''access_token'' = JStr ''t''"
    by (simp add: opt_get_simps)
  show ?thesis
    using a b t
      login_success[OF a b, of no_conversion "[]" "JStr ''a@b.com''" "JStr ''pw''"
        "initial_world None"]
      login_success[OF c d, of no_conversion "[]" "JStr ''a@b.com''" "JStr ''pw''"
        "initial_world None"] t'
    by auto
qed

text \<open>
  Claim C7 (login refused by the backend). If the login request rejects with a response
  whose payload has a truthy \<^verbatim>\<open>error\<close> field, as \<^verbatim>\<open>{error: "bad creds"}\<close> has, \<^verbatim>\<open>login\<close>
  returns \<^verbatim>\<open>{success: false, error: e}\<close> with \<open>e\<close> that field, and whatever the state
  was before, the user, the token and the persisted token are cleared.
\<close>

theorem login_backend_error:
  assumes "truthy (opt_get payload ''error'')"
  shows "\<exists>w'. login conv B (Rejected (Some payload) msg) email password w =
              (Inr (JObj [(''success'', JBool False), (''error'', opt_get payload ''error'')]), w')
            \<and> cleared w' \<and> loading w' = False"
  using assms by (simp add: login_defs action_defs Let_def cleared_def js_or_def)

theorem login_backend_error_witness:
  "truthy (opt_get (JObj [(''error'', JStr ''bad creds'')]) ''error'')
   \<and> (\<exists>w'. login no_conversion []
              (Rejected (Some (JObj [(''error'', JStr ''bad creds'')]))
                 ''Request failed with status code 401'')
              (JStr ''a@b.com'') (JStr ''pw'')
              \<lparr>user = JObj [(''role'', JStr ''customer'')], token = JStr ''old'',
               loading = False, storage = Some ''old'', trace = []\<rparr>
            = (Inr (JObj [(''success'', JBool False), (''error'', JStr ''bad creds'')]), w')
          \<and> user w' = JNull \<and> token w' = JNull \<and> storage w' = None)"
proof -
  have h: "truthy (opt_get (JObj [(''error'', JStr ''bad creds'')]) ''error'')"
    by (simp add: opt_get_simps)
  show ?thesis
    using h login_backend_error[OF h, of no_conversion "[]"
        "''Request failed with status code 401''" "JStr ''a@b.com''" "JStr ''pw''"
        "\<lparr>user = JObj [(''role'', JStr ''customer'')], token = JStr ''old'',
          loading = False, storage = Some ''old'', trace = []\<rparr>"]
    by (auto simp: opt_get_simps cleared_def)
qed

text \<open>
  Claim C8 (logout). Whatever the logout request does, \<^verbatim>\<open>logout\<close> returns normally with
  the user, the token and the persisted token cleared, and its one navigation goes to the
  home route \<^verbatim>\<open>/\<close>.
\<close>

theorem logout_always_clears:
  "\<exists>w'. logout B outcome w = (Inr JUndefined, w') \<and> cleared w'
        \<and> navigations (effects_of (logout B outcome) w) = [''/'']"
  by (cases outcome)
     (auto simp: logout_defs action_defs Let_def cleared_def effects_of_def)

text \<open>
  Claim C9 (success without a token in the response). Let the request of \<^verbatim>\<open>login\<close> or
  \<^verbatim>\<open>register\<close> resolve with a body whose \<^verbatim>\<open>user\<close> is a value \<open>u\<close> with a readable
  \<^verbatim>\<open>role\<close>, and whose \<^verbatim>\<open>access_token\<close> is falsy (absent, \<^verbatim>\<open>null\<close>, the empty string, and
  also \<^verbatim>\<open>false\<close> or \<^verbatim>\<open>0\<close>). Then the token state and the persisted token stay as they
  were, the user becomes \<open>u\<close>, the call returns \<^verbatim>\<open>{success: true}\<close> and navigates once,
  by the role.
\<close>

theorem success_without_token:
  assumes "get_prop d ''user'' = Inr u" and "get_prop u ''role'' = Inr ro"
      and "\<not> truthy (opt_get d ''access_token'')"
  shows "(\<exists>w'. login conv B (Resolved d) email password w
                 = (Inr (JObj [(''success'', JBool True)]), w')
            \<and> token w' = token w \<and> storage w' = storage w \<and> user w' = u
            \<and> navigations (effects_of (login conv B (Resolved d) email password) w) =
                [if ro = JStr ''admin'' then ''/dashboard/admin'' else ''/dashboard/customer''])
       \<and> (\<exists>w'. register conv B (Resolved d) email password name r w
                 = (Inr (JObj [(''success'', JBool True)]), w')
            \<and> token w' = token w \<and> storage w' = storage w \<and> user w' = u
            \<and> navigations (effects_of (register conv B (Resolved d) email password name r) w) =
                [if ro = JStr ''admin'' then ''/dashboard/admin'' else ''/dashboard/customer''])"
  using assms get_prop_other_key[OF assms(1), of "''access_token''"]
  by (auto simp: login_defs register_defs action_defs Let_def effects_of_def)

theorem success_without_token_witness:
  "get_prop (JObj [(''user'', JObj [(''role'', JStr ''customer'')]), (''access_token'', JStr [])])
     ''user'' = Inr (JObj [(''role'', JStr ''customer'')])
   \<and> get_prop (JObj [(''role'', JStr ''customer'')]) ''role'' = Inr (JStr ''customer'')
   \<and> \<not> truthy (opt_get (JObj [(''user'', JObj [(''role'', JStr ''customer'')]),
                                (''access_token'', JStr [])]) ''access_token'')
   \<and> (\<exists>w'. login no_conversion []
              (Resolved (JObj [(''user'', JObj [(''role'', JStr ''customer'')]),
                               (''access_token'', JStr [])]))
              (JStr ''a@b.com'') (JStr ''pw'') (initial_world (Some ''old''))
            = (Inr (JObj [(''success'', JBool True)]), w')
          \<and> token w' = JStr ''old'' \<and> storage w' = Some ''old''
          \<and> user w' = JObj [(''role'', JStr ''customer'')])
   \<and> (\<exists>w'. register no_conversion []
              (Resolved (JObj [(''user'', JObj [(''role'', JStr ''customer'')]),
                               (''access_token'', JStr [])]))
              (JStr ''a@b.com'') (JStr ''pw'') (JStr ''Ann'') JUndefined
              (initial_world (Some ''old''))
            = (Inr (JObj [(''success'', JBool True)]), w')
          \<and> token w' = JStr ''old'' \<and> storage w' = Some ''old''
          \<and> user w' = JObj [(''role'', JStr ''customer'')])"
proof -
  have a: "get_prop (JObj [(''user'', JObj [(''role'', JStr ''customer'')]),
                           (''access_token'', JStr [])]) ''user''
             = Inr (JObj [(''role'', JStr ''customer'')])"
    by simp
  have b: "get_prop (JObj [(''role'', JStr ''customer'')]) ''role'' = Inr (JStr ''customer'')"
    by simp
  have c: "\<not> truthy (opt_get (JObj [(''user'', JObj [(''role'', JStr ''customer'')]),
                                     (''access_token'', JStr [])]) ''access_token'')"
    by (simp add: opt_get_simps)
  have t: "token (initial_world (Some ''old'')) = JStr ''old''"
          "storage (initial_world (Some ''old'')) = Some ''old''"
    by (simp_all add: initial_world_def)
  show ?thesis
    using a b c t
      success_without_token[OF a b c, of no_conversion "[]" "JStr ''a@b.com''" "JStr ''pw''"
        "initial_world (Some ''old'')" "JStr ''Ann''" JUndefined]
    by auto
qed

text \<open>
  Claim C10 (the failure message), as amended. When the request of \<^verbatim>\<open>login\<close> or
  \<^verbatim>\<open>register\<close> rejects, the message returned is the \<^verbatim>\<open>error\<close> field of the payload if
  that field is truthy; otherwise the \<^verbatim>\<open>message\<close> field if that one is truthy; otherwise
  \<^verbatim>\<open>Login failed\<close>, respectively \<^verbatim>\<open>Registration failed\<close>. In particular the default is
  returned when there is no response, or a payload with neither field; and a truthy
  \<^verbatim>\<open>error\<close> wins over any \<^verbatim>\<open>message\<close>.
\<close>

theorem failure_message_fallback:
  fixes rsp :: "jsval option"
  defines "payload \<equiv> (case rsp of None \<Rightarrow> JUndefined | Some p \<Rightarrow> p)"
  defines "E \<equiv> opt_get payload ''error''"
  defines "M \<equiv> opt_get payload ''message''"
  shows "fst (login conv B (Rejected rsp msg) email password w) =
           Inr (JObj [(''success'', JBool False),
                      (''error'', if truthy E then E else if truthy M then M
                                  else JStr ''Login failed'')])
       \<and> fst (register conv B (Rejected rsp msg) email password name r w) =
           Inr (JObj [(''success'', JBool False),
                      (''error'', if truthy E then E else if truthy M then M
                                  else JStr ''Registration failed'')])
       \<and> (rsp = None \<or> (\<exists>kvs. rsp = Some (JObj kvs) \<and> map_of kvs ''error'' = None
                                 \<and> map_of kvs ''message'' = None)
            \<longrightarrow> \<not> truthy E \<and> \<not> truthy M)"
  by (cases rsp)
     (auto simp: login_defs register_defs action_defs Let_def js_or_def opt_get_simps
        payload_def E_def M_def)

text \<open>No response at all gives the defaults; with both fields truthy, \<^verbatim>\<open>error\<close> wins.\<close>

theorem failure_message_fallback_witness:
  "fst (login no_conversion [] (Rejected None ''Network Error'') (JStr ''a@b.com'') (JStr ''pw'')
          (initial_world None))
     = Inr (JObj [(''success'', JBool False), (''error'', JStr ''Login failed'')])
   \<and> fst (register no_conversion [] (Rejected None ''Network Error'') (JStr ''a@b.com'')
            (JStr ''pw'') (JStr ''Ann'') JUndefined (initial_world None))
     = Inr (JObj [(''success'', JBool False), (''error'', JStr ''Registration failed'')])
   \<and> fst (login no_conversion []
            (Rejected (Some (JObj [(''message'', JStr ''m''), (''error'', JStr ''e'')]))
               ''Request failed with status code 400'')
            (JStr ''a@b.com'') (JStr ''pw'') (initial_world None))
     = Inr (JObj [(''success'', JBool False), (''error'', JStr ''e'')])"
  using
    failure_message_fallback[of no_conversion "[]" None "''Network Error''" "JStr ''a@b.com''"
      "JStr ''pw''" "initial_world None" "JStr ''Ann''" JUndefined]
    failure_message_fallback[of no_conversion "[]"
      "Some (JObj [(''message'', JStr ''m''), (''error'', JStr ''e'')])"
      "''Request failed with status code 400''" "JStr ''a@b.com''" "JStr ''pw''"
      "initial_world None" "JStr ''Ann''" JUndefined]
  by (simp add: opt_get_simps)

text \<open>
  Claim C10 as stated fails where the \<^verbatim>\<open>error\<close> field is present but falsy: for the
  payload \<^verbatim>\<open>{error: false, message: "Invalid password"}\<close> both fields are present, and
  \<^verbatim>\<open>login\<close> returns the \<^verbatim>\<open>message\<close> field, not the \<^verbatim>\<open>error\<close> field.
\<close>

theorem error_precedence_counterexample:
  "map_of [(''error'', JBool False), (''message'', JStr ''Invalid password'')] ''error''
     = Some (JBool False)
   \<and> map_of [(''error'', JBool False), (''message'', JStr ''Invalid password'')] ''message''
     = Some (JStr ''Invalid password'')
   \<and> fst (login no_conversion []
            (Rejected (Some (JObj [(''error'', JBool False),
                                   (''message'', JStr ''Invalid password'')]))
               ''Request failed with status code 401'')
            (JStr ''a@b.com'') (JStr ''pw'') (initial_world None))
     = Inr (JObj [(''success'', JBool False), (''error'', JStr ''Invalid password'')])"
  by (simp add: login_defs action_defs Let_def js_or_def opt_get_simps initial_world_def)

end
